theory Spec2Isabelle
  imports Main
begin

section \<open>JavaScript values used by the server and the client\<close>

text \<open>
  A JavaScript string is modelled as a \<^typ>\<open>string\<close>: one \<^typ>\<open>char\<close> per code unit, for
  code units below 256.  A value that may be \<^verbatim>\<open>undefined\<close> is an \<^typ>\<open>'a option\<close> with
  \<^term>\<open>None\<close> for \<^verbatim>\<open>undefined\<close>.

  \<^verbatim>\<open>json\<close> is what \<^verbatim>\<open>JSON.parse\<close> returns and what \<^verbatim>\<open>JSON.stringify\<close> prints.  An object
  holds its own properties in insertion order.  Only integral numbers are represented;
  nothing below computes with a number.
\<close>

datatype json =
    JNull
  | JBool bool
  | JNum int
  | JStr string
  | JArr "json list"
  | JObj "(string \<times> json) list"

text \<open>Truthiness of a string that may be \<^verbatim>\<open>undefined\<close>: \<^verbatim>\<open>undefined\<close> and \<^verbatim>\<open>""\<close> are falsy.\<close>

fun truthy :: "string option \<Rightarrow> bool" where
  "truthy None = False"
| "truthy (Some s) = (s \<noteq> [])"

text \<open>Decimal text of a non-negative integer, as a template literal prints a number.\<close>

definition digit_char :: "nat \<Rightarrow> char" where
  "digit_char d = ''0123456789'' ! d"

function show_nat :: "nat \<Rightarrow> string" where
  "show_nat n = (if n < 10 then [digit_char n] else show_nat (n div 10) @ [digit_char (n mod 10)])"
  by pat_completeness auto
termination
  by (relation "measure id") auto

declare show_nat.simps [simp del]

subsection \<open>\<^verbatim>\<open>JSON.stringify\<close>\<close>

definition hex_digit :: "nat \<Rightarrow> char" where
  "hex_digit d = ''0123456789abcdef'' ! d"

text \<open>
  The escapes of \<^verbatim>\<open>JSON.stringify\<close> (ECMAScript QuoteJSONString): the double quote, the
  backslash, and the control characters below U+0020.
\<close>

definition escape_char :: "char \<Rightarrow> string" where
  "escape_char c =
     (if c = CHR 0x22 then [CHR 0x5C, CHR 0x22]
      else if c = CHR 0x5C then [CHR 0x5C, CHR 0x5C]
      else if c = CHR 0x08 then [CHR 0x5C, CHR ''b'']
      else if c = CHR 0x09 then [CHR 0x5C, CHR ''t'']
      else if c = CHR 0x0A then [CHR 0x5C, CHR ''n'']
      else if c = CHR 0x0C then [CHR 0x5C, CHR ''f'']
      else if c = CHR 0x0D then [CHR 0x5C, CHR ''r'']
      else if (of_char c :: nat) < 32
        then [CHR 0x5C, CHR ''u'', CHR ''0'', CHR ''0'',
              hex_digit (of_char c div 16), hex_digit (of_char c mod 16)]
      else [c])"

definition quote :: "string \<Rightarrow> string" where
  "quote s = [CHR 0x22] @ concat (map escape_char s) @ [CHR 0x22]"

text \<open>\<^verbatim>\<open>Array.prototype.join\<close> on strings.\<close>

fun join :: "string \<Rightarrow> string list \<Rightarrow> string" where
  "join sep [] = []"
| "join sep [x] = x"
| "join sep (x # y # ys) = x @ sep @ join sep (y # ys)"

fun stringify :: "json \<Rightarrow> string" where
  "stringify JNull = ''null''"
| "stringify (JBool b) = (if b then ''true'' else ''false'')"
| "stringify (JNum n) = (if n < 0 then CHR ''-'' # show_nat (nat (- n)) else show_nat (nat n))"
| "stringify (JStr s) = quote s"
| "stringify (JArr xs) = ''['' @ join '','' (map stringify xs) @ '']''"
| "stringify (JObj kvs) =
     ''{'' @ join '','' (map (\<lambda>kv. quote (fst kv) @ '':'' @ stringify (snd kv)) kvs) @ ''}''"

section \<open>The server: \<^verbatim>\<open>src/server/index.js\<close>\<close>

subsection \<open>The allowlist\<close>

text \<open>
  \<^verbatim>\<open>String.prototype.split(",")\<close>: the pieces between the commas; the empty string splits
  into one empty piece.
\<close>

fun split_comma :: "string \<Rightarrow> string list" where
  "split_comma [] = [[]]"
| "split_comma (c # cs) =
     (if c = CHR '','' then [] # split_comma cs
      else (case split_comma cs of
              [] \<Rightarrow> [[c]]
            | p # ps \<Rightarrow> (c # p) # ps))"

text \<open>
  The characters \<^verbatim>\<open>String.prototype.trim\<close> strips (ECMAScript WhiteSpace and
  LineTerminator) among the code units below 256: TAB, LF, VT, FF, CR, SP and NBSP.
\<close>

definition is_ws :: "char \<Rightarrow> bool" where
  "is_ws c \<longleftrightarrow>
     c = CHR 0x09 \<or> c = CHR 0x0A \<or> c = CHR 0x0B \<or> c = CHR 0x0C \<or>
     c = CHR 0x0D \<or> c = CHR 0x20 \<or> c = CHR 0xA0"

definition trim :: "string \<Rightarrow> string" where
  "trim s = rev (dropWhile is_ws (rev (dropWhile is_ws s)))"

text \<open>
  \<^verbatim>\<open>
  const clientUrlEnv = process.env.CLIENT_URL;
  const allowedOrigins =
    clientUrlEnv && clientUrlEnv !== "*"
      ? clientUrlEnv.split(",").map((s) => s.trim()).filter(Boolean)
      : null;
  \<close>
  The argument is \<^verbatim>\<open>process.env.CLIENT_URL\<close>, \<^term>\<open>None\<close> when the variable is unset;
  the result \<^term>\<open>None\<close> is \<^verbatim>\<open>null\<close>.
\<close>

definition allowedOrigins :: "string option \<Rightarrow> string list option" where
  "allowedOrigins clientUrlEnv =
     (case clientUrlEnv of
        None \<Rightarrow> None
      | Some s \<Rightarrow>
          if s \<noteq> [] \<and> s \<noteq> ''*''
          then Some (filter (\<lambda>e. e \<noteq> []) (map trim (split_comma s)))
          else None)"

subsection \<open>The origin callback\<close>

text \<open>
  \<^verbatim>\<open>
  origin(origin, callback) {
    if (!origin) return callback(null, true);
    if (!clientUrlEnv || clientUrlEnv === "*") return callback(null, true);
    if (allowedOrigins?.includes(origin)) return callback(null, true);
    return callback(new Error(`CORS blocked for origin: ${origin}`));
  }
  \<close>
  The second argument is the request's \<^verbatim>\<open>Origin\<close> header, \<^term>\<open>None\<close> when the request
  carries none.  \<^term>\<open>Allow\<close> is \<^verbatim>\<open>callback(null, true)\<close>; \<^term>\<open>Reject\<close> carries the
  message of the error handed to the callback.
\<close>

datatype decision = Allow | Reject string

definition origin :: "string option \<Rightarrow> string option \<Rightarrow> decision" where
  "origin clientUrlEnv hdr =
     (case hdr of
        None \<Rightarrow> Allow
      | Some ori \<Rightarrow>
          if ori = [] then Allow
          else if \<not> truthy clientUrlEnv \<or> clientUrlEnv = Some ''*'' then Allow
          else if (case allowedOrigins clientUrlEnv of
                     None \<Rightarrow> False
                   | Some allowed \<Rightarrow> ori \<in> set allowed) then Allow
          else Reject (''CORS blocked for origin: '' @ ori))"

subsection \<open>The middleware and the route\<close>

text \<open>
  A request to \<^verbatim>\<open>GET /api/home\<close>, with the headers the server reads: \<^verbatim>\<open>Origin\<close>,
  \<^verbatim>\<open>If-None-Match\<close>, \<^verbatim>\<open>If-Modified-Since\<close> and \<^verbatim>\<open>Cache-Control\<close>, each \<^term>\<open>None\<close> when the
  request carries none.  Of the response, the status, the \<^verbatim>\<open>Access-Control-Allow-Origin\<close>
  and the \<^verbatim>\<open>ETag\<close> header (\<^term>\<open>None\<close> when not set) and the body are modelled.
\<close>

record request =
  req_origin :: "string option"
  req_if_none_match :: "string option"
  req_if_modified_since :: "string option"
  req_cache_control :: "string option"

text \<open>A request with no conditional header.\<close>

definition unconditional :: "string option \<Rightarrow> request" where
  "unconditional hdr =
     \<lparr>req_origin = hdr, req_if_none_match = None, req_if_modified_since = None,
      req_cache_control = None\<rparr>"

record response =
  res_status :: nat
  res_acao :: "string option"
  res_etag :: "string option"
  res_body :: string

definition fresh_res :: response where
  "fresh_res = \<lparr>res_status = 200, res_acao = None, res_etag = None, res_body = []\<rparr>"

datatype server_error = OriginRejected string

text \<open>
  \<^verbatim>\<open>app.use(cors({ origin(origin, callback) { ... } }))\<close>.  The \<^verbatim>\<open>cors\<close> package is a
  dependency of the server; the model follows its \<^verbatim>\<open>lib/index.js\<close> for an \<^verbatim>\<open>origin\<close>
  option that is a function.  The middleware calls the function with
  \<^verbatim>\<open>req.headers.origin\<close>.  On an error it calls \<^verbatim>\<open>next(err)\<close>: no header is set and the
  route is skipped.  On the decision \<^verbatim>\<open>true\<close> it configures the headers with
  \<^verbatim>\<open>origin: true\<close>, which is neither falsy, \<^verbatim>\<open>"*"\<close> nor a string, so the header value is
  the request's own origin, and the header is set only when that value is truthy.
\<close>

definition reflect_origin :: "string option \<Rightarrow> string option" where
  "reflect_origin hdr = (if truthy hdr then hdr else None)"

definition corsMiddleware ::
  "string option \<Rightarrow> request \<Rightarrow> response \<Rightarrow> server_error + response" where
  "corsMiddleware clientUrlEnv req res =
     (case origin clientUrlEnv (req_origin req) of
        Reject msg \<Rightarrow> Inl (OriginRejected msg)
      | Allow \<Rightarrow> Inr (res\<lparr>res_acao := reflect_origin (req_origin req)\<rparr>))"

text \<open>
  The freshness test of a conditional request.  The deployment guide names Express
  5.2.1; Express and the package \<^verbatim>\<open>fresh\<close> (2.x) it uses are dependencies of the server,
  and the model follows their sources.

  \<^verbatim>\<open>parseTokenList\<close> of \<^verbatim>\<open>fresh\<close>: the pieces between the commas, each without its leading
  and trailing spaces (U+0020 only).
\<close>

definition strip_spaces :: "string \<Rightarrow> string" where
  "strip_spaces p =
     rev (dropWhile (\<lambda>c. c = CHR 0x20) (rev (dropWhile (\<lambda>c. c = CHR 0x20) p)))"

definition parseTokenList :: "string \<Rightarrow> string list" where
  "parseTokenList str = map strip_spaces (split_comma str)"

text \<open>
  \<^verbatim>\<open>/(?:^|,)\s*?no-cache\s*?(?:,|$)/.test(cacheControl)\<close>: a match runs from the start of
  the value or a comma to a comma or the end of the value, so it is one of the pieces
  between the commas, and the piece is \<^verbatim>\<open>no-cache\<close> with whitespace around it; \<^verbatim>\<open>\s\<close>
  matches the characters that \<^verbatim>\<open>trim\<close> strips.
\<close>

definition no_cache :: "string \<Rightarrow> bool" where
  "no_cache cacheControl \<longleftrightarrow> list_ex (\<lambda>p. trim p = ''no-cache'') (split_comma cacheControl)"

text \<open>\<^verbatim>\<open>match === etag || match === 'W/' + etag || 'W/' + match === etag\<close>\<close>

definition etag_matches :: "string \<Rightarrow> string \<Rightarrow> bool" where
  "etag_matches etag match \<longleftrightarrow>
     match = etag \<or> match = ''W/'' @ etag \<or> ''W/'' @ match = etag"

text \<open>
  \<^verbatim>\<open>
  function fresh (reqHeaders, resHeaders) {
    var modifiedSince = reqHeaders['if-modified-since']
    var noneMatch = reqHeaders['if-none-match']
    if (!modifiedSince && !noneMatch) return false
    var cacheControl = reqHeaders['cache-control']
    if (cacheControl && CACHE_CONTROL_NO_CACHE_REGEXP.test(cacheControl)) return false
    if (noneMatch) {
      if (noneMatch === '*') return true
      var etag = resHeaders.etag
      if (!etag) return false
      var matches = parseTokenList(noneMatch)
      for (...) if (match === etag || ...) return true
      return false
    }
    if (modifiedSince) {
      var lastModified = resHeaders['last-modified']
      var modifiedStale = !lastModified || ...
      if (modifiedStale) return false
    }
    return true
  }
  \<close>
  The second argument is the \<^verbatim>\<open>ETag\<close> header of the response.  The server never sets
  \<^verbatim>\<open>Last-Modified\<close>, so \<^verbatim>\<open>!lastModified\<close> holds: a request that reaches the test of
  \<^verbatim>\<open>If-Modified-Since\<close> is stale.
\<close>

definition fresh :: "request \<Rightarrow> string option \<Rightarrow> bool" where
  "fresh req etag =
     (if \<not> truthy (req_if_modified_since req) \<and> \<not> truthy (req_if_none_match req) then False
      else if (case req_cache_control req of
                 None \<Rightarrow> False
               | Some cacheControl \<Rightarrow> cacheControl \<noteq> [] \<and> no_cache cacheControl) then False
      else (case req_if_none_match req of
              None \<Rightarrow> False
            | Some noneMatch \<Rightarrow>
                if noneMatch = [] then False
                else if noneMatch = ''*'' then True
                else (case etag of
                        None \<Rightarrow> False
                      | Some e \<Rightarrow> e \<noteq> [] \<and> list_ex (etag_matches e) (parseTokenList noneMatch))))"

text \<open>
  \<^verbatim>\<open>req.fresh\<close> of Express, for a \<^verbatim>\<open>GET\<close>: the freshness test, when the status of the
  response is 2xx or 304.
\<close>

definition req_fresh :: "request \<Rightarrow> response \<Rightarrow> bool" where
  "req_fresh req res \<longleftrightarrow>
     ((200 \<le> res_status res \<and> res_status res < 300) \<or> res_status res = 304) \<and>
     fresh req (res_etag res)"

text \<open>
  \<^verbatim>\<open>res.send(chunk)\<close> of Express for a string, on a \<^verbatim>\<open>GET\<close>.  It generates the \<^verbatim>\<open>ETag\<close> header
  when the response has none (the \<^verbatim>\<open>etag\<close> setting is on by default, and \<^verbatim>\<open>index.js\<close> does
  not change it), sets the status to 304 when \<^verbatim>\<open>req.fresh\<close> holds, and sends an empty
  body under the status 204, 304 or 205 and the chunk otherwise.  The argument \<open>tag\<close> is
  the tag the \<^verbatim>\<open>ETag\<close> function gives for the chunk.
\<close>

definition res_send :: "request \<Rightarrow> string \<Rightarrow> string \<Rightarrow> response \<Rightarrow> response" where
  "res_send req chunk tag res =
     (let res1 = (if truthy (res_etag res) then res else res\<lparr>res_etag := Some tag\<rparr>);
          res2 = (if req_fresh req res1 then res1\<lparr>res_status := 304\<rparr> else res1)
      in if res_status res2 = 204 \<or> res_status res2 = 304 \<or> res_status res2 = 205
         then res2\<lparr>res_body := []\<rparr>
         else res2\<lparr>res_body := chunk\<rparr>)"

text \<open>
  \<^verbatim>\<open>
  app.get('/api/home', (req, res) => {
      res.json({ message: "Hello World!", people: ["Harry", "Jack", "Mary"] });
  });
  \<close>
  \<^verbatim>\<open>res.json\<close> hands \<^verbatim>\<open>JSON.stringify\<close> of its argument to \<^verbatim>\<open>res.send\<close>.  The default
  \<^verbatim>\<open>ETag\<close> is weak: the length of the body in hexadecimal and 27 characters of the
  base64 SHA-1 of the body.  The hash is not modelled; \<^verbatim>\<open>greeting_etag\<close> is the tag of
  the one body this route sends.
\<close>

definition greeting :: json where
  "greeting =
     JObj [(''message'', JStr ''Hello World!''),
           (''people'', JArr [JStr ''Harry'', JStr ''Jack'', JStr ''Mary''])]"

definition greeting_etag :: string where
  \<open>greeting_etag = ''W/"3b-0S7olOxD1ujQF+11Dy5EU18dFMU"''\<close>

definition home_handler :: "request \<Rightarrow> response \<Rightarrow> response" where
  "home_handler req res = res_send req (stringify greeting) greeting_etag res"

text \<open>The application on a request to \<^verbatim>\<open>GET /api/home\<close>: the middleware, then the route.\<close>

definition app :: "string option \<Rightarrow> request \<Rightarrow> server_error + response" where
  "app clientUrlEnv req =
     (case corsMiddleware clientUrlEnv req fresh_res of
        Inl e \<Rightarrow> Inl e
      | Inr res \<Rightarrow> Inr (home_handler req res))"

text \<open>
  The origin policy in the words of the specification, over the allowlist \<open>A\<close>
  (\<^term>\<open>None\<close> for unset or wildcard) and the request's \<^verbatim>\<open>Origin\<close> header.
\<close>

definition spec_allows :: "string list option \<Rightarrow> string option \<Rightarrow> bool" where
  "spec_allows A hdr \<longleftrightarrow>
     A = None \<or> hdr = None \<or> (\<exists>ori allowed. hdr = Some ori \<and> A = Some allowed \<and> ori \<in> set allowed)"

section \<open>The client: \<^verbatim>\<open>src/client/pages/index.tsx\<close>\<close>

subsection \<open>What a fetch can deliver\<close>

text \<open>
  A thrown value: a \<^verbatim>\<open>DOMException\<close> with its name and message, any other instance of
  \<^verbatim>\<open>Error\<close> with its message, or a value that is not an \<^verbatim>\<open>Error\<close>.  A \<^verbatim>\<open>DOMException\<close>
  is an instance of \<^verbatim>\<open>Error\<close> too.
\<close>

datatype exn =
    DOMException string string
  | ErrorObject string
  | Thrown

text \<open>\<^verbatim>\<open>e instanceof DOMException && e.name === "AbortError"\<close>\<close>

fun is_abort :: "exn \<Rightarrow> bool" where
  "is_abort (DOMException name msg) = (name = ''AbortError'')"
| "is_abort (ErrorObject msg) = False"
| "is_abort Thrown = False"

text \<open>\<^verbatim>\<open>e instanceof Error ? e.message : "Failed to load"\<close>\<close>

fun error_text :: "exn \<Rightarrow> string" where
  "error_text (DOMException name msg) = msg"
| "error_text (ErrorObject msg) = msg"
| "error_text Thrown = ''Failed to load''"

text \<open>
  The response a fetch resolves with: its status, its status text, and what
  \<^verbatim>\<open>await response.json()\<close> gives, a rejection or the parsed body.
\<close>

record http_response =
  status :: nat
  statusText :: string
  body_json :: "exn + json"

text \<open>\<^verbatim>\<open>response.ok\<close>: the status is in the range 200 to 299.\<close>

definition ok :: "http_response \<Rightarrow> bool" where
  "ok r \<longleftrightarrow> 200 \<le> status r \<and> status r \<le> 299"

datatype fetch_outcome = Resolved http_response | Rejected exn

text \<open>
  Reading the property \<^verbatim>\<open>message\<close> or \<^verbatim>\<open>people\<close> of a parsed body.  On \<^verbatim>\<open>null\<close> the read
  throws a \<^verbatim>\<open>TypeError\<close> (the text is V8's); on an object it gives the property, or
  \<^verbatim>\<open>undefined\<close> when the object has none of that name; a boolean, a number, a string
  and an array have neither property.
\<close>

definition null_read_error :: "string \<Rightarrow> exn" where
  "null_read_error k =
     ErrorObject (''Cannot read properties of null (reading '' @ [CHR 0x27] @ k @ [CHR 0x27] @ '')'')"

fun get_prop :: "json \<Rightarrow> string \<Rightarrow> exn + json option" where
  "get_prop JNull k = Inl (null_read_error k)"
| "get_prop (JObj kvs) k = Inr (map_of kvs k)"
| "get_prop (JBool b) k = Inr None"
| "get_prop (JNum n) k = Inr None"
| "get_prop (JStr s) k = Inr None"
| "get_prop (JArr xs) k = Inr None"

text \<open>\<^verbatim>\<open>v ?? d\<close>: the default replaces \<^verbatim>\<open>undefined\<close> and \<^verbatim>\<open>null\<close>.\<close>

fun nullish :: "json option \<Rightarrow> json \<Rightarrow> json" where
  "nullish None d = d"
| "nullish (Some JNull) d = d"
| "nullish (Some v) d = v"

text \<open>\<^verbatim>\<open>Array.isArray(v) ? v : []\<close>\<close>

fun array_or_empty :: "json option \<Rightarrow> json list" where
  "array_or_empty (Some (JArr xs)) = xs"
| "array_or_empty v = []"

subsection \<open>The revised component \<^verbatim>\<open>IndexPage\<close>\<close>

text \<open>The four state cells, with the initial values given to \<^verbatim>\<open>React.useState\<close>.\<close>

record page_state =
  message :: json
  people :: "json list"
  error :: "string option"
  loading :: bool

definition initial_state :: page_state where
  "initial_state = \<lparr>message = JStr [], people = [], error = None, loading = True\<rparr>"

datatype setter =
    SetMessage json
  | SetPeople "json list"
  | SetError "string option"
  | SetLoading bool

fun apply_setter :: "setter \<Rightarrow> page_state \<Rightarrow> page_state" where
  "apply_setter (SetMessage v) s = s\<lparr>message := v\<rparr>"
| "apply_setter (SetPeople v) s = s\<lparr>people := v\<rparr>"
| "apply_setter (SetError v) s = s\<lparr>error := v\<rparr>"
| "apply_setter (SetLoading v) s = s\<lparr>loading := v\<rparr>"

text \<open>A run of setter calls without an \<^verbatim>\<open>await\<close> in between is applied as one batch.\<close>

definition apply_all :: "setter list \<Rightarrow> page_state \<Rightarrow> page_state" where
  "apply_all calls s = fold apply_setter calls s"

text \<open>
  \<^verbatim>\<open>
  async function load() {
    try {
      setError(null);
      setLoading(true);
      const response = await fetch("/api/home", { signal: controller.signal });
      if (!response.ok) {
        throw new Error(`Request failed: ${response.status} ${response.statusText}`);
      }
      const data = await response.json();
      setMessage(data.message ?? "");
      setPeople(Array.isArray(data.people) ? data.people : []);
    } catch (e) {
      if (e instanceof DOMException && e.name === "AbortError") return;
      setError(e instanceof Error ? e.message : "Failed to load");
    } finally {
      setLoading(false);
    }
  }
  \<close>
  \<^term>\<open>load_begin\<close> is the calls made before the first \<^verbatim>\<open>await\<close>.  \<^term>\<open>try_rest\<close> is the
  rest of the \<^verbatim>\<open>try\<close> block once the fetch has settled: the calls it makes, and the
  value it throws, if any.  Unmounting aborts the controller; the fetch, or the read of
  the body, then rejects with a \<^verbatim>\<open>DOMException\<close> named \<^verbatim>\<open>AbortError\<close>.
\<close>

definition load_begin :: "setter list" where
  "load_begin = [SetError None, SetLoading True]"

definition try_rest :: "fetch_outcome \<Rightarrow> setter list \<times> exn option" where
  "try_rest out =
     (case out of
        Rejected e \<Rightarrow> ([], Some e)
      | Resolved response \<Rightarrow>
          if \<not> ok response
          then ([], Some (ErrorObject
                  (''Request failed: '' @ show_nat (status response) @ '' '' @ statusText response)))
          else (case body_json response of
                  Inl e \<Rightarrow> ([], Some e)
                | Inr data \<Rightarrow>
                    (case get_prop data ''message'' of
                       Inl e \<Rightarrow> ([], Some e)
                     | Inr m \<Rightarrow>
                         (case get_prop data ''people'' of
                            Inl e \<Rightarrow> ([SetMessage (nullish m (JStr []))], Some e)
                          | Inr p \<Rightarrow>
                              ([SetMessage (nullish m (JStr [])), SetPeople (array_or_empty p)],
                               None)))))"

definition catch_clause :: "exn \<Rightarrow> setter list" where
  "catch_clause e = (if is_abort e then [] else [SetError (Some (error_text e))])"

definition finally_clause :: "setter list" where
  "finally_clause = [SetLoading False]"

text \<open>Every setter call \<^verbatim>\<open>load\<close> makes after the fetch has settled, in order.\<close>

definition load_settle :: "fetch_outcome \<Rightarrow> setter list" where
  "load_settle out =
     (case try_rest out of
        (calls, thrown) \<Rightarrow>
          calls @ (case thrown of None \<Rightarrow> [] | Some e \<Rightarrow> catch_clause e) @ finally_clause)"

text \<open>
  One mount of the component (the effect has no dependencies, so \<^verbatim>\<open>load\<close> runs once):
  the first render, the render after the effect has started \<^verbatim>\<open>load\<close>, and the render
  after the fetch has settled.  React (19 in the deployment guide) applies the setter
  calls of one synchronous run as one batch.  The calls of \<^term>\<open>load_settle\<close> are made in
  one such run: the only \<^verbatim>\<open>await\<close> after the fetch is the read of the body, and no
  setter is called between the two.  So no state in between is rendered.
\<close>

datatype phase = Mounted | Fetching | Settled fetch_outcome

fun state_at :: "phase \<Rightarrow> page_state" where
  "state_at Mounted = initial_state"
| "state_at Fetching = apply_all load_begin initial_state"
| "state_at (Settled out) = apply_all (load_settle out) (apply_all load_begin initial_state)"

text \<open>The error cell once the fetch has settled, by the kind of outcome.\<close>

definition settled_error :: "fetch_outcome \<Rightarrow> string option" where
  "settled_error out =
     (case out of
        Rejected e \<Rightarrow> if is_abort e then None else Some (error_text e)
      | Resolved r \<Rightarrow>
          if \<not> ok r
          then Some (''Request failed: '' @ show_nat (status r) @ '' '' @ statusText r)
          else (case body_json r of
                  Inl e \<Rightarrow> if is_abort e then None else Some (error_text e)
                | Inr d \<Rightarrow>
                    if d = JNull then Some (error_text (null_read_error ''message'')) else None))"

text \<open>
  The children of the rendered \<^verbatim>\<open>div\<close>:
  \<^verbatim>\<open>
  {loading ? <div>Loading...</div> : null}
  {error ? <div>Error: {error}</div> : null}
  {!loading && !error ? <div>{message}</div> : null}
  {people.map((person, index) => (<div key={index}>{person}</div>))}
  \<close>
\<close>

datatype node =
    LoadingDiv
  | ErrorDiv string
  | MessageDiv "json option"
  | PersonDiv nat "json"

definition person_items :: "json list \<Rightarrow> node list" where
  "person_items ps = map (\<lambda>(i, person). PersonDiv i person) (enumerate 0 ps)"

definition IndexPage_render :: "page_state \<Rightarrow> node list" where
  "IndexPage_render s =
     (if loading s then [LoadingDiv] else []) @
     (case error s of
        None \<Rightarrow> []
      | Some e \<Rightarrow> if e \<noteq> [] then [ErrorDiv e] else []) @
     (if \<not> loading s \<and> \<not> truthy (error s) then [MessageDiv (Some (message s))] else []) @
     person_items (people s)"

text \<open>The three display states of the specification, read off the rendered children.\<close>

fun is_status_node :: "node \<Rightarrow> bool" where
  "is_status_node LoadingDiv = True"
| "is_status_node (ErrorDiv e) = True"
| "is_status_node (MessageDiv m) = True"
| "is_status_node (PersonDiv i p) = False"

datatype display = Loading | Loaded json "json list" | Failed string

definition display_of :: "page_state \<Rightarrow> display" where
  "display_of s =
     (if loading s then Loading
      else (case error s of
              None \<Rightarrow> Loaded (message s) (people s)
            | Some e \<Rightarrow> if e \<noteq> [] then Failed e else Loaded (message s) (people s)))"

subsection \<open>The legacy component \<^verbatim>\<open>index\<close>\<close>

text \<open>
  \<^verbatim>\<open>
  fetch(`${process.env.NEXT_PUBLIC_API_URL}/api/home`).then(
    response => response.json()
  ).then(
    data => { setMessage(data.message); setPeople(data.people); }
  )
  \<close>
  The cells hold whatever the body gave, \<^verbatim>\<open>undefined\<close> included.  The status is not
  looked at, and a rejection or a throw is not handled: no setter is called after it.
\<close>

record index_state =
  index_message :: "json option"
  index_people :: "json option"

definition index_initial :: index_state where
  "index_initial = \<lparr>index_message = Some (JStr []), index_people = Some (JArr [])\<rparr>"

datatype index_setter =
    IndexSetMessage "json option"
  | IndexSetPeople "json option"

fun index_apply :: "index_setter \<Rightarrow> index_state \<Rightarrow> index_state" where
  "index_apply (IndexSetMessage v) s = s\<lparr>index_message := v\<rparr>"
| "index_apply (IndexSetPeople v) s = s\<lparr>index_people := v\<rparr>"

definition index_settle :: "fetch_outcome \<Rightarrow> index_setter list" where
  "index_settle out =
     (case out of
        Rejected e \<Rightarrow> []
      | Resolved response \<Rightarrow>
          (case body_json response of
             Inl e \<Rightarrow> []
           | Inr data \<Rightarrow>
               (case get_prop data ''message'' of
                  Inl e \<Rightarrow> []
                | Inr m \<Rightarrow>
                    (case get_prop data ''people'' of
                       Inl e \<Rightarrow> [IndexSetMessage m]
                     | Inr p \<Rightarrow> [IndexSetMessage m, IndexSetPeople p]))))"

definition index_final :: "fetch_outcome \<Rightarrow> index_state" where
  "index_final out = fold index_apply (index_settle out) index_initial"

text \<open>
  \<^verbatim>\<open>
  <div>{message}</div>
  {people.map((person, index) => (<div key={index}>{person}</div>))}
  \<close>
  \<^verbatim>\<open>people.map\<close> throws a \<^verbatim>\<open>TypeError\<close> when the cell holds anything but an array (the texts
  are V8's).
\<close>

definition undefined_read_error :: "string \<Rightarrow> exn" where
  "undefined_read_error k =
     ErrorObject
       (''Cannot read properties of undefined (reading '' @ [CHR 0x27] @ k @ [CHR 0x27] @ '')'')"

definition index_render :: "index_state \<Rightarrow> exn + node list" where
  "index_render s =
     (case index_people s of
        None \<Rightarrow> Inl (undefined_read_error ''map'')
      | Some JNull \<Rightarrow> Inl (null_read_error ''map'')
      | Some (JArr ps) \<Rightarrow> Inr ([MessageDiv (index_message s)] @ person_items ps)
      | Some v \<Rightarrow> Inl (ErrorObject ''people.map is not a function''))"

section \<open>Properties of the server\<close>

subsection \<open>Splitting and trimming\<close>

lemma split_comma_not_Nil: "split_comma s \<noteq> []"
  by (induction s) (auto split: list.splits)

lemma join_Cons: "ps \<noteq> [] \<Longrightarrow> join sep (p # ps) = p @ sep @ join sep ps"
  by (cases ps) simp_all

lemma join_split_comma: "join '','' (split_comma s) = s"
proof (induction s)
  case Nil
  show ?case by simp
next
  case (Cons c cs)
  show ?case
  proof (cases "c = CHR '',''")
    case True
    with Cons show ?thesis by (simp add: join_Cons split_comma_not_Nil)
  next
    case False
    obtain p ps where sp: "split_comma cs = p # ps"
      using split_comma_not_Nil [of cs] by (cases "split_comma cs") auto
    have "join '','' ((c # p) # ps) = c # join '','' (p # ps)"
      by (cases ps) simp_all
    with Cons False sp show ?thesis by simp
  qed
qed

lemma split_comma_no_comma: "p \<in> set (split_comma s) \<Longrightarrow> CHR '','' \<notin> set p"
proof (induction s arbitrary: p)
  case Nil
  then show ?case by simp
next
  case (Cons c cs)
  then show ?case
    by (auto split: if_splits list.splits)
qed

lemma rev_drop_take: "rev (dropWhile P (rev xs)) @ rev (takeWhile P (rev xs)) = xs"
  by (metis rev_append rev_rev_ident takeWhile_dropWhile_id)

lemma trim_suffix: "dropWhile is_ws s = trim s @ rev (takeWhile is_ws (rev (dropWhile is_ws s)))"
  unfolding trim_def by (rule rev_drop_take [symmetric])

lemma trim_decompose:
  "\<exists>l r. s = l @ trim s @ r \<and> (\<forall>c\<in>set l. is_ws c) \<and> (\<forall>c\<in>set r. is_ws c)"
proof -
  let ?l = "takeWhile is_ws s"
  let ?r = "rev (takeWhile is_ws (rev (dropWhile is_ws s)))"
  have "s = ?l @ dropWhile is_ws s"
    by simp
  also have "dropWhile is_ws s = trim s @ ?r"
    by (rule trim_suffix)
  finally have "s = ?l @ trim s @ ?r" .
  moreover have "\<forall>c\<in>set ?l. is_ws c"
    by (auto dest: set_takeWhileD)
  moreover have "\<forall>c\<in>set ?r. is_ws c"
    by (auto dest: set_takeWhileD)
  ultimately show ?thesis by blast
qed

lemma trim_no_trailing_ws: "takeWhile is_ws (rev (trim s)) = []"
proof -
  let ?d = "dropWhile is_ws (rev (dropWhile is_ws s))"
  have "rev (trim s) = ?d"
    by (simp add: trim_def)
  moreover have "takeWhile is_ws ?d = []"
  proof (cases ?d)
    case Nil
    then show ?thesis by (simp only: takeWhile.simps)
  next
    case (Cons a as)
    then have "\<not> is_ws (hd ?d)"
      using hd_dropWhile [of is_ws "rev (dropWhile is_ws s)"] by simp
    with Cons show ?thesis by simp
  qed
  ultimately show ?thesis by simp
qed

lemma trim_no_leading_ws: "takeWhile is_ws (trim s) = []"
proof (cases "trim s")
  case Nil
  then show ?thesis by simp
next
  case (Cons a as)
  let ?t = "dropWhile is_ws s"
  have "?t = trim s @ rev (takeWhile is_ws (rev ?t))"
    by (rule trim_suffix)
  then obtain r where t: "?t = a # r"
    unfolding Cons by simp
  from t have "?t \<noteq> []"
    by simp
  then have "\<not> is_ws (hd ?t)"
    by (rule hd_dropWhile)
  with t have "\<not> is_ws a"
    by simp
  with Cons show ?thesis by simp
qed

subsection \<open>The origin callback and the application\<close>

lemma greeting_text:
  \<open>stringify greeting = ''{"message":"Hello World!","people":["Harry","Jack","Mary"]}''\<close>
  by (simp add: greeting_def quote_def escape_char_def)

lemma allowedOrigins_None_iff:
  "allowedOrigins clientUrlEnv = None \<longleftrightarrow>
     clientUrlEnv = None \<or> clientUrlEnv = Some [] \<or> clientUrlEnv = Some ''*''"
  by (auto simp: allowedOrigins_def split: option.splits)

lemma allowedOrigins_no_empty: "allowedOrigins clientUrlEnv = Some allowed \<Longrightarrow> [] \<notin> set allowed"
  by (auto simp: allowedOrigins_def split: option.splits if_splits)

lemma origin_Allow_iff:
  "origin clientUrlEnv hdr = Allow \<longleftrightarrow>
     allowedOrigins clientUrlEnv = None \<or> hdr = None \<or> hdr = Some [] \<or>
     (\<exists>ori allowed. hdr = Some ori \<and> allowedOrigins clientUrlEnv = Some allowed \<and> ori \<in> set allowed)"
  by (cases clientUrlEnv; cases hdr) (auto simp: origin_def allowedOrigins_def)

lemma origin_Reject: 
  "origin clientUrlEnv hdr = Reject msg \<Longrightarrow> \<exists>ori. hdr = Some ori \<and> msg = ''CORS blocked for origin: '' @ ori"
  by (auto simp: origin_def split: option.splits if_splits)

lemma greeting_length: "length (stringify greeting) = 0x3b"
  by (simp add: greeting_def quote_def escape_char_def)

lemma res_send_acao: "res_acao (res_send req chunk tag res) = res_acao res"
  by (simp add: res_send_def Let_def)

lemma fresh_unconditional:
  "req_if_none_match req = None \<Longrightarrow> req_if_modified_since req = None \<Longrightarrow> \<not> fresh req etag"
  by (simp add: fresh_def)

lemma home_handler_fresh_res:
  "home_handler req (fresh_res\<lparr>res_acao := h\<rparr>) =
     (if fresh req (Some greeting_etag)
      then \<lparr>res_status = 304, res_acao = h, res_etag = Some greeting_etag, res_body = []\<rparr>
      else \<lparr>res_status = 200, res_acao = h, res_etag = Some greeting_etag,
            res_body = stringify greeting\<rparr>)"
  by (simp add: home_handler_def res_send_def req_fresh_def fresh_res_def Let_def)

lemma app_Allow:
  "origin clientUrlEnv (req_origin req) = Allow \<Longrightarrow>
   app clientUrlEnv req =
     Inr (home_handler req (fresh_res\<lparr>res_acao := reflect_origin (req_origin req)\<rparr>))"
  by (simp add: app_def corsMiddleware_def)

lemma app_Reject:
  "origin clientUrlEnv (req_origin req) = Reject msg \<Longrightarrow> app clientUrlEnv req = Inl (OriginRejected msg)"
  by (simp add: app_def corsMiddleware_def)

subsection \<open>The origin check\<close>

text \<open>
  A request whose \<^verbatim>\<open>Origin\<close> header is present and empty is allowed under the allowlist
  \<^verbatim>\<open>https://a.example\<close>, since \<^verbatim>\<open>!origin\<close> holds for the empty string: the header is there,
  the allowlist is set and does not hold the empty string, so the policy as the
  specification words it denies the request.
\<close>

theorem origin_check_counterexample:
  "origin (Some ''https://a.example'') (Some []) = Allow \<and>
   \<not> spec_allows (allowedOrigins (Some ''https://a.example'')) (Some [])"
  by (simp add: origin_def spec_allows_def allowedOrigins_def trim_def is_ws_def)

text \<open>
  Claim C1, amended.  For every value of \<^verbatim>\<open>CLIENT_URL\<close> and every request, the server
  answers the request if and only if the allowlist is \<^verbatim>\<open>null\<close> (unset or wildcard), or the
  request carries no \<^verbatim>\<open>Origin\<close> header or an empty one, or the origin is equal, character
  for character, to an entry of the allowlist.  An allowed request is answered by the
  route; every other request fails with the error
  \<^verbatim>\<open>CORS blocked for origin: <origin>\<close> and the route does not run.
\<close>

theorem origin_check_iff:
  "((\<exists>res. app clientUrlEnv req = Inr res) \<longleftrightarrow>
      allowedOrigins clientUrlEnv = None \<or> req_origin req = None \<or> req_origin req = Some [] \<or>
      (\<exists>ori allowed. req_origin req = Some ori \<and> allowedOrigins clientUrlEnv = Some allowed \<and>
         ori \<in> set allowed)) \<and>
   (case origin clientUrlEnv (req_origin req) of
      Allow \<Rightarrow>
        app clientUrlEnv req =
          Inr (home_handler req (fresh_res\<lparr>res_acao := reflect_origin (req_origin req)\<rparr>))
    | Reject msg \<Rightarrow>
        app clientUrlEnv req = Inl (OriginRejected msg) \<and>
        (\<exists>ori. req_origin req = Some ori \<and> msg = ''CORS blocked for origin: '' @ ori))"
proof (cases "origin clientUrlEnv (req_origin req)")
  case Allow
  then show ?thesis
    using app_Allow [OF Allow] origin_Allow_iff [of clientUrlEnv "req_origin req"] by simp
next
  case (Reject msg)
  then have "origin clientUrlEnv (req_origin req) \<noteq> Allow"
    by simp
  then show ?thesis
    using app_Reject [OF Reject] origin_Reject [OF Reject] Reject
      origin_Allow_iff [of clientUrlEnv "req_origin req"] by simp
qed

theorem origin_check_iff_witness:
  "app (Some ''https://a.example'') (unconditional (Some ''https://b.example'')) =
     Inl (OriginRejected ''CORS blocked for origin: https://b.example'') \<and>
   (\<exists>res. app (Some ''https://a.example'') (unconditional (Some ''https://a.example'')) = Inr res)"
proof -
  have a: "allowedOrigins (Some ''https://a.example'') = Some [''https://a.example'']"
    by (simp add: allowedOrigins_def trim_def is_ws_def)
  have r: "origin (Some ''https://a.example'') (Some ''https://b.example'') =
             Reject ''CORS blocked for origin: https://b.example''"
    by (simp add: origin_def a)
  show ?thesis
    using origin_check_iff [of "Some ''https://a.example''" "unconditional (Some ''https://b.example'')"]
      origin_check_iff [of "Some ''https://a.example''" "unconditional (Some ''https://a.example'')"]
    by (simp add: a r unconditional_def)
qed

subsection \<open>The route\<close>

text \<open>
  A request with \<^verbatim>\<open>If-None-Match: *\<close> is a conditional request that \<^verbatim>\<open>res.send\<close> finds
  fresh: the answer has the status 304 and an empty body, not the status 200 and the
  document.
\<close>

theorem conditional_get_counterexample:
  "app None
     \<lparr>req_origin = None, req_if_none_match = Some ''*'', req_if_modified_since = None,
      req_cache_control = None\<rparr> =
   Inr \<lparr>res_status = 304, res_acao = None, res_etag = Some greeting_etag, res_body = []\<rparr>"
  by (simp add: app_def corsMiddleware_def origin_def reflect_origin_def home_handler_def
      res_send_def req_fresh_def fresh_def fresh_res_def Let_def)

text \<open>
  So is a request that names the tag of the document among others; with
  \<^verbatim>\<open>Cache-Control: no-cache\<close> the same request is stale and gets the document.
\<close>

lemma conditional_get_matching_tag:
  \<open>fresh
     \<lparr>req_origin = None, req_if_none_match = Some ''"abc", W/"3b-0S7olOxD1ujQF+11Dy5EU18dFMU"'',
      req_if_modified_since = None, req_cache_control = None\<rparr> (Some greeting_etag) \<and>
   \<not> fresh
     \<lparr>req_origin = None, req_if_none_match = Some ''"abc", W/"3b-0S7olOxD1ujQF+11Dy5EU18dFMU"'',
      req_if_modified_since = None, req_cache_control = Some ''max-age=0, no-cache''\<rparr>
     (Some greeting_etag) \<and>
   \<not> fresh
     \<lparr>req_origin = None, req_if_none_match = Some ''"abc"'',
      req_if_modified_since = None, req_cache_control = None\<rparr> (Some greeting_etag)\<close>
  by (simp add: fresh_def greeting_etag_def parseTokenList_def strip_spaces_def etag_matches_def
      no_cache_def trim_def is_ws_def)

text \<open>
  Claim C4, amended.  For every request to \<^verbatim>\<open>GET /api/home\<close> the handler hands \<^verbatim>\<open>res.json\<close>
  the same document.  Unless the request is a conditional request that is found fresh,
  the response has the status 200 and exactly the body
  \<^verbatim>\<open>{"message":"Hello World!","people":["Harry","Jack","Mary"]}\<close>; a request with neither
  \<^verbatim>\<open>If-None-Match\<close> nor \<^verbatim>\<open>If-Modified-Since\<close> is never fresh.  A fresh conditional request
  gets the status 304 and an empty body.  So any two responses with the status 200
  have the same body, whatever the requests.
\<close>

theorem home_handler_document:
  \<open>home_handler req (fresh_res\<lparr>res_acao := h\<rparr>) =
     (if fresh req (Some greeting_etag)
      then \<lparr>res_status = 304, res_acao = h, res_etag = Some greeting_etag, res_body = []\<rparr>
      else \<lparr>res_status = 200, res_acao = h, res_etag = Some greeting_etag,
            res_body = ''{"message":"Hello World!","people":["Harry","Jack","Mary"]}''\<rparr>) \<and>
   (req_if_none_match req = None \<and> req_if_modified_since req = None \<longrightarrow>
      \<not> fresh req (Some greeting_etag)) \<and>
   (case app clientUrlEnv req of
      Inl e \<Rightarrow> True
    | Inr res \<Rightarrow>
        if fresh req (Some greeting_etag)
        then res_status res = 304 \<and> res_body res = []
        else res_status res = 200 \<and>
             res_body res = ''{"message":"Hello World!","people":["Harry","Jack","Mary"]}'') \<and>
   (case (app clientUrlEnv req, app clientUrlEnv' req') of
      (Inr res, Inr res') \<Rightarrow>
        res_status res = 200 \<and> res_status res' = 200 \<longrightarrow> res_body res = res_body res'
    | _ \<Rightarrow> True)\<close>
proof -
  have h: \<open>home_handler req (fresh_res\<lparr>res_acao := h\<rparr>) =
     (if fresh req (Some greeting_etag)
      then \<lparr>res_status = 304, res_acao = h, res_etag = Some greeting_etag, res_body = []\<rparr>
      else \<lparr>res_status = 200, res_acao = h, res_etag = Some greeting_etag,
            res_body = ''{"message":"Hello World!","people":["Harry","Jack","Mary"]}''\<rparr>)\<close>
    for req h
    by (simp only: home_handler_fresh_res greeting_text)
  have u: "req_if_none_match req = None \<and> req_if_modified_since req = None \<longrightarrow>
      \<not> fresh req (Some greeting_etag)"
    by (simp add: fresh_unconditional)
  have a: \<open>case app clientUrlEnv req of
      Inl e \<Rightarrow> True
    | Inr res \<Rightarrow>
        if fresh req (Some greeting_etag)
        then res_status res = 304 \<and> res_body res = []
        else res_status res = 200 \<and>
             res_body res = ''{"message":"Hello World!","people":["Harry","Jack","Mary"]}''\<close>
    for clientUrlEnv req
  proof (cases "origin clientUrlEnv (req_origin req)")
    case Allow
    show ?thesis
      by (simp add: app_Allow [OF Allow] h)
  next
    case (Reject msg)
    show ?thesis
      by (simp add: app_Reject [OF Reject])
  qed
  have b: "case (app clientUrlEnv req, app clientUrlEnv' req') of
      (Inr res, Inr res') \<Rightarrow>
        res_status res = 200 \<and> res_status res' = 200 \<longrightarrow> res_body res = res_body res'
    | _ \<Rightarrow> True"
    using a [where clientUrlEnv = clientUrlEnv and req = req]
      a [where clientUrlEnv = clientUrlEnv' and req = req']
    by (auto split: sum.splits if_splits)
  from h [where req = req and h = h] u a [where clientUrlEnv = clientUrlEnv and req = req] b
  show ?thesis
    by (intro conjI)
qed

theorem home_handler_document_witness:
  \<open>app None (unconditional None) =
     Inr \<lparr>res_status = 200, res_acao = None, res_etag = Some greeting_etag,
          res_body = ''{"message":"Hello World!","people":["Harry","Jack","Mary"]}''\<rparr> \<and>
   req_if_none_match (unconditional None) = None \<and>
   req_if_modified_since (unconditional None) = None \<and>
   \<not> fresh (unconditional None) (Some greeting_etag)\<close>
proof -
  have "app None (unconditional None) =
      Inr (home_handler (unconditional None) (fresh_res\<lparr>res_acao := None\<rparr>))"
    by (simp add: app_def corsMiddleware_def origin_def reflect_origin_def unconditional_def)
  moreover have "req_if_none_match (unconditional None) = None"
    and "req_if_modified_since (unconditional None) = None"
    by (simp_all add: unconditional_def)
  ultimately show ?thesis
    using home_handler_document [of "unconditional None" None] by simp
qed

subsection \<open>The \<^verbatim>\<open>Access-Control-Allow-Origin\<close> header\<close>

text \<open>
  The callback hands the middleware the same decision for the same request whether the
  allow is unconditional (\<^verbatim>\<open>CLIENT_URL\<close> unset) or an entry matched: each allowing branch
  calls \<^verbatim>\<open>callback(null, true)\<close>.  Whatever the middleware makes of the decision, the
  header cannot tell the two cases apart.
\<close>

lemma same_decision_unconditional_and_matched:
  "origin None (Some ''https://a.example'') = Allow \<and>
   origin (Some ''https://a.example'') (Some ''https://a.example'') = Allow"
  by (simp add: origin_def allowedOrigins_def trim_def is_ws_def)

text \<open>
  With \<^verbatim>\<open>CLIENT_URL\<close> unset the allow decision is unconditional, and a request from
  \<^verbatim>\<open>https://a.example\<close> gets the header \<^verbatim>\<open>https://a.example\<close>, not \<^verbatim>\<open>*\<close>.
\<close>

theorem acao_unconditional_counterexample:
  "allowedOrigins None = None \<and>
   map_sum id res_acao (app None (unconditional (Some ''https://a.example''))) =
     Inr (Some ''https://a.example'')"
  by (simp add: allowedOrigins_def app_def corsMiddleware_def origin_def reflect_origin_def
      home_handler_def res_send_acao unconditional_def)

text \<open>
  Claim C7, amended.  On every allowed request to \<^verbatim>\<open>GET /api/home\<close> that declares a
  non-empty origin, the \<^verbatim>\<open>Access-Control-Allow-Origin\<close> header of the response is that
  origin, whether an entry of the allowlist matched it or the allow decision was
  unconditional; an allowed request with no \<^verbatim>\<open>Origin\<close> header, or an empty one, gets no
  such header.
\<close>

theorem acao_reflects_request_origin:
  assumes "origin clientUrlEnv (req_origin req) = Allow"
  shows "\<exists>res. app clientUrlEnv req = Inr res \<and>
           res_acao res =
             (case req_origin req of
                None \<Rightarrow> None
              | Some ori \<Rightarrow> if ori = [] then None else Some ori)"
  using app_Allow [OF assms]
  by (auto simp: reflect_origin_def home_handler_def res_send_acao split: option.splits)

theorem acao_reflects_request_origin_witness:
  "origin (Some ''https://a.example'') (Some ''https://a.example'') = Allow \<and>
   (\<exists>res. app (Some ''https://a.example'') (unconditional (Some ''https://a.example'')) = Inr res \<and>
      res_acao res = Some ''https://a.example'') \<and>
   origin (Some ''*'') (Some ''https://b.example'') = Allow \<and>
   (\<exists>res. app (Some ''*'') (unconditional (Some ''https://b.example'')) = Inr res \<and>
      res_acao res = Some ''https://b.example'')"
proof -
  have h: "origin (Some ''https://a.example'')
      (req_origin (unconditional (Some ''https://a.example''))) = Allow"
    by (simp add: origin_def allowedOrigins_def trim_def is_ws_def unconditional_def)
  have u: "origin (Some ''*'') (req_origin (unconditional (Some ''https://b.example''))) = Allow"
    by (simp add: origin_def unconditional_def)
  show ?thesis
    using h u acao_reflects_request_origin [OF h] acao_reflects_request_origin [OF u]
    by (simp add: unconditional_def)
qed

subsection \<open>The entries of the allowlist\<close>

text \<open>
  \<^verbatim>\<open>CLIENT_URL\<close> set to the empty string is set and is not \<^verbatim>\<open>*\<close>, and its comma-separated
  entries, trimmed and without the empty ones, are none.  The allowlist is not that
  empty list but \<^verbatim>\<open>null\<close>, and every origin is allowed.
\<close>

theorem allowedOrigins_empty_counterexample:
  "allowedOrigins (Some []) = None \<and>
   filter (\<lambda>e. e \<noteq> []) (map trim (split_comma [])) = [] \<and>
   origin (Some []) (Some ''https://b.example'') = Allow"
  by (simp add: allowedOrigins_def origin_def trim_def)

text \<open>
  Claim C8, amended.  For every value of \<^verbatim>\<open>CLIENT_URL\<close> that is set, not empty and not
  \<^verbatim>\<open>*\<close>, the allowlist is the list of its comma-separated pieces (joined by commas they
  give the value back, and none holds a comma), each with its surrounding whitespace
  removed, and without the empty ones.  A request with a non-empty origin is allowed
  exactly when the origin is the trimmed form of one of the pieces.  Under
  \<^verbatim>\<open>https://a.example, https://b.example\<close> the origin \<^verbatim>\<open>https://b.example\<close> is allowed.
\<close>

theorem allowedOrigins_entries:
  assumes "s \<noteq> []" and "s \<noteq> ''*''"
  shows "allowedOrigins (Some s) = Some (filter (\<lambda>e. e \<noteq> []) (map trim (split_comma s))) \<and>
    join '','' (split_comma s) = s \<and>
    (\<forall>p\<in>set (split_comma s).
       CHR '','' \<notin> set p \<and>
       takeWhile is_ws (trim p) = [] \<and> takeWhile is_ws (rev (trim p)) = [] \<and>
       (\<exists>l r. p = l @ trim p @ r \<and> (\<forall>c\<in>set l. is_ws c) \<and> (\<forall>c\<in>set r. is_ws c))) \<and>
    (\<forall>ori. ori \<noteq> [] \<longrightarrow>
       (origin (Some s) (Some ori) = Allow) = (\<exists>p\<in>set (split_comma s). trim p = ori))"
proof -
  have a: "allowedOrigins (Some s) = Some (filter (\<lambda>e. e \<noteq> []) (map trim (split_comma s)))"
    using assms by (simp add: allowedOrigins_def)
  have b: "\<forall>p\<in>set (split_comma s).
       CHR '','' \<notin> set p \<and>
       takeWhile is_ws (trim p) = [] \<and> takeWhile is_ws (rev (trim p)) = [] \<and>
       (\<exists>l r. p = l @ trim p @ r \<and> (\<forall>c\<in>set l. is_ws c) \<and> (\<forall>c\<in>set r. is_ws c))"
    using split_comma_no_comma trim_no_leading_ws trim_no_trailing_ws trim_decompose
    by blast
  have c: "(origin (Some s) (Some ori) = Allow) = (\<exists>p\<in>set (split_comma s). trim p = ori)"
    if "ori \<noteq> []" for ori
    using that assms by (auto simp: origin_def a)
  from a b c join_split_comma [of s] show ?thesis
    by blast
qed

theorem allowedOrigins_entries_witness:
  "allowedOrigins (Some ''https://a.example, https://b.example'') =
     Some [''https://a.example'', ''https://b.example''] \<and>
   origin (Some ''https://a.example, https://b.example'') (Some ''https://b.example'') = Allow"
proof -
  let ?s = "''https://a.example, https://b.example''"
  have h1: "?s \<noteq> []" by simp
  have h2: "?s \<noteq> ''*''" by simp
  have e: "filter (\<lambda>e. e \<noteq> []) (map trim (split_comma ?s)) = [''https://a.example'', ''https://b.example'']"
    by (simp add: trim_def is_ws_def)
  from allowedOrigins_entries [OF h1 h2]
  have a: "allowedOrigins (Some ?s) = Some (filter (\<lambda>e. e \<noteq> []) (map trim (split_comma ?s)))"
    by (rule conjunct1)
  have a': "allowedOrigins (Some ?s) = Some [''https://a.example'', ''https://b.example'']"
    by (simp only: a e)
  have "origin (Some ?s) (Some ''https://b.example'') = Allow"
    by (simp add: origin_def a')
  with a' show ?thesis
    by (intro conjI)
qed

section \<open>Properties of the client\<close>

subsection \<open>The calls of \<^verbatim>\<open>load\<close> by outcome\<close>

lemma show_nat_500: "show_nat 500 = ''500''"
  by code_simp

lemma get_prop_not_null: "d \<noteq> JNull \<Longrightarrow> \<exists>v. get_prop d k = Inr v"
  by (cases d) simp_all

lemma load_settle_Rejected:
  "load_settle (Rejected e) =
     (if is_abort e then [SetLoading False] else [SetError (Some (error_text e)), SetLoading False])"
  by (simp add: load_settle_def try_rest_def catch_clause_def finally_clause_def)

lemma load_settle_not_ok:
  "\<not> ok r \<Longrightarrow>
   load_settle (Resolved r) =
     [SetError (Some (''Request failed: '' @ show_nat (status r) @ '' '' @ statusText r)),
      SetLoading False]"
  by (simp add: load_settle_def try_rest_def catch_clause_def finally_clause_def)

lemma load_settle_body_rejected:
  "ok r \<Longrightarrow> body_json r = Inl e \<Longrightarrow> load_settle (Resolved r) = load_settle (Rejected e)"
  by (simp add: load_settle_def try_rest_def)

lemma load_settle_null:
  "ok r \<Longrightarrow> body_json r = Inr JNull \<Longrightarrow>
   load_settle (Resolved r) =
     [SetError (Some (error_text (null_read_error ''message''))), SetLoading False]"
  by (simp add: load_settle_def try_rest_def catch_clause_def finally_clause_def null_read_error_def)

lemma load_settle_data:
  assumes "ok r" and "body_json r = Inr d" and "get_prop d ''message'' = Inr m"
    and "get_prop d ''people'' = Inr p"
  shows "load_settle (Resolved r) =
     [SetMessage (nullish m (JStr [])), SetPeople (array_or_empty p), SetLoading False]"
  using assms by (simp add: load_settle_def try_rest_def finally_clause_def)

lemma settled_cases:
  obtains (err) msg where "load_settle out = [SetError (Some msg), SetLoading False]"
      and "settled_error out = Some msg"
    | (abort) "load_settle out = [SetLoading False]" and "settled_error out = None"
    | (data) r d m p where "out = Resolved r" and "ok r" and "body_json r = Inr d" and "d \<noteq> JNull"
      and "get_prop d ''message'' = Inr m" and "get_prop d ''people'' = Inr p"
      and "load_settle out =
        [SetMessage (nullish m (JStr [])), SetPeople (array_or_empty p), SetLoading False]"
      and "settled_error out = None"
proof (cases out)
  case (Rejected e)
  then show ?thesis
    using err abort by (cases "is_abort e") (simp_all add: load_settle_Rejected settled_error_def)
next
  case (Resolved r)
  show ?thesis
  proof (cases "ok r")
    case False
    with Resolved show ?thesis
      using err by (simp add: load_settle_not_ok settled_error_def)
  next
    case True
    show ?thesis
    proof (cases "body_json r")
      case (Inl e)
      with True Resolved show ?thesis
        using err abort
        by (cases "is_abort e")
          (simp_all add: load_settle_body_rejected load_settle_Rejected settled_error_def)
    next
      case (Inr d)
      show ?thesis
      proof (cases "d = JNull")
        case True
        with \<open>ok r\<close> Inr Resolved show ?thesis
          using err by (simp add: load_settle_null settled_error_def)
      next
        case False
        then obtain m p where "get_prop d ''message'' = Inr m" and "get_prop d ''people'' = Inr p"
          using get_prop_not_null by blast
        with False \<open>ok r\<close> Inr Resolved show ?thesis
          using data load_settle_data by (simp add: settled_error_def)
      qed
    qed
  qed
qed

lemma settled_state:
  "error (state_at (Settled out)) = settled_error out \<and> loading (state_at (Settled out)) = False"
  by (cases out rule: settled_cases) (simp_all add: apply_all_def load_begin_def initial_state_def)

lemma filter_person_items: "filter is_status_node (person_items ps) = []"
  by (auto simp: person_items_def filter_empty_conv)

lemma person_items_nth: "person_items ps = map (\<lambda>i. PersonDiv i (ps ! i)) [0..<length ps]"
  by (rule nth_equalityI) (simp_all add: person_items_def nth_enumerate_eq)

lemma loading_no_error: "loading (state_at p) \<Longrightarrow> error (state_at p) = None"
proof (cases p)
  case Mounted
  then show ?thesis by (simp add: initial_state_def)
next
  case Fetching
  then show ?thesis by (simp add: apply_all_def load_begin_def initial_state_def)
next
  case (Settled out)
  assume "loading (state_at p)"
  with settled_state [of out] Settled show ?thesis by simp
qed

subsection \<open>Unmounting before the fetch settles\<close>

lemma abort_calls: "is_abort e \<Longrightarrow> load_settle (Rejected e) = [SetLoading False]"
  by (simp add: load_settle_Rejected)

text \<open>
  Claim C2.  When the component is unmounted before the fetch settles, the fetch
  rejects with the \<^verbatim>\<open>AbortError\<close>.  The \<^verbatim>\<open>catch\<close> clause returns without a call of
  \<^verbatim>\<open>setError\<close>, but the \<^verbatim>\<open>finally\<close> clause still runs: \<^verbatim>\<open>load\<close> calls \<^verbatim>\<open>setLoading(false)\<close>
  after the unmount.
\<close>

theorem unmount_abort_writes_loading:
  "load_settle (Rejected (DOMException ''AbortError'' ''The operation was aborted.'')) =
     [SetLoading False]"
  by (simp add: load_settle_Rejected)

text \<open>
  When the effect is run, cleaned up and run again on the same cells, the stale call
  takes the loading indicator away while the second fetch is still pending.
\<close>

lemma remount_abort_hides_loading:
  "IndexPage_render
     (apply_all (load_settle (Rejected (DOMException ''AbortError'' ''The operation was aborted.'')))
        (apply_all load_begin (apply_all load_begin initial_state))) =
   [MessageDiv (Some (JStr []))]"
  by (simp add: load_settle_Rejected apply_all_def load_begin_def initial_state_def
      IndexPage_render_def person_items_def)

subsection \<open>A fetch that resolves with a success status\<close>

text \<open>
  A response with status 200 and an empty body: the read of the body rejects, and the
  client ends in the failed state.
\<close>

theorem success_status_unparsable_body_counterexample:
  "ok \<lparr>status = 200, statusText = ''OK'',
       body_json = Inl (ErrorObject ''Unexpected end of JSON input'')\<rparr> \<and>
   display_of (state_at (Settled (Resolved
     \<lparr>status = 200, statusText = ''OK'',
      body_json = Inl (ErrorObject ''Unexpected end of JSON input'')\<rparr>))) =
     Failed ''Unexpected end of JSON input''"
  by (simp add: ok_def display_of_def load_settle_def try_rest_def catch_clause_def
      finally_clause_def apply_all_def load_begin_def initial_state_def)

text \<open>
  Claim C3, amended.  For every fetch that resolves with an HTTP success status and
  whose body parses to a JSON value other than \<^verbatim>\<open>null\<close>, the client enters the loaded
  state: the message is the body's \<^verbatim>\<open>message\<close>, or the empty string when that is absent
  (or \<^verbatim>\<open>null\<close>), and the people are the body's \<^verbatim>\<open>people\<close>, or the empty sequence when that
  is absent or not an array.  The body \<^verbatim>\<open>{"message":"hi"}\<close> gives \<^verbatim>\<open>Loaded("hi", [])\<close> and
  the body \<^verbatim>\<open>{}\<close> gives \<^verbatim>\<open>Loaded("", [])\<close>.
\<close>

theorem loaded_default_filling:
  assumes "ok r" and "body_json r = Inr d" and "d \<noteq> JNull"
  shows "\<exists>m p. get_prop d ''message'' = Inr m \<and> get_prop d ''people'' = Inr p \<and>
    (\<forall>kvs. d = JObj kvs \<longrightarrow> m = map_of kvs ''message'' \<and> p = map_of kvs ''people'') \<and>
    state_at (Settled (Resolved r)) =
      \<lparr>message = nullish m (JStr []), people = array_or_empty p, error = None, loading = False\<rparr> \<and>
    display_of (state_at (Settled (Resolved r))) =
      Loaded (nullish m (JStr [])) (array_or_empty p)"
proof -
  obtain m p where m: "get_prop d ''message'' = Inr m" and p: "get_prop d ''people'' = Inr p"
    using get_prop_not_null [OF assms(3)] by blast
  have s: "state_at (Settled (Resolved r)) =
      \<lparr>message = nullish m (JStr []), people = array_or_empty p, error = None, loading = False\<rparr>"
    by (simp add: load_settle_data [OF assms(1,2) m p] apply_all_def load_begin_def
        initial_state_def)
  have "display_of (state_at (Settled (Resolved r))) =
      Loaded (nullish m (JStr [])) (array_or_empty p)"
    unfolding s by (simp add: display_of_def)
  moreover have "\<forall>kvs. d = JObj kvs \<longrightarrow> m = map_of kvs ''message'' \<and> p = map_of kvs ''people''"
    using m p by auto
  ultimately show ?thesis
    using m p s by blast
qed

theorem loaded_default_filling_witness:
  "display_of (state_at (Settled (Resolved
     \<lparr>status = 200, statusText = ''OK'',
      body_json = Inr (JObj [(''message'', JStr ''hi'')])\<rparr>))) = Loaded (JStr ''hi'') [] \<and>
   display_of (state_at (Settled (Resolved
     \<lparr>status = 200, statusText = ''OK'', body_json = Inr (JObj [])\<rparr>))) = Loaded (JStr []) []"
proof -
  let ?r1 = "\<lparr>status = 200, statusText = ''OK'', body_json = Inr (JObj [(''message'', JStr ''hi'')])\<rparr>"
  let ?r2 = "\<lparr>status = 200, statusText = ''OK'', body_json = Inr (JObj [])\<rparr>"
  have o1: "ok ?r1" and o2: "ok ?r2"
    by (simp_all add: ok_def)
  have b1: "body_json ?r1 = Inr (JObj [(''message'', JStr ''hi'')])"
    and b2: "body_json ?r2 = Inr (JObj [])"
    by simp_all
  have n1: "JObj [(''message'', JStr ''hi'')] \<noteq> JNull" and n2: "JObj [] \<noteq> JNull"
    by simp_all
  from loaded_default_filling [OF o1 b1 n1]
  have "display_of (state_at (Settled (Resolved ?r1))) = Loaded (JStr ''hi'') []"
    by auto
  moreover from loaded_default_filling [OF o2 b2 n2]
  have "display_of (state_at (Settled (Resolved ?r2))) = Loaded (JStr []) []"
    by auto
  ultimately show ?thesis
    by (intro conjI)
qed

subsection \<open>When the client fails\<close>

text \<open>
  A response with status 200 whose body is not JSON: the fetch has resolved, with a
  success status, and the client still ends with the error cell set.
\<close>

theorem failed_after_success_status_counterexample:
  "ok \<lparr>status = 200, statusText = ''OK'',
       body_json = Inl (ErrorObject ''Unexpected token < in JSON at position 0'')\<rparr> \<and>
   error (state_at (Settled (Resolved
     \<lparr>status = 200, statusText = ''OK'',
      body_json = Inl (ErrorObject ''Unexpected token < in JSON at position 0'')\<rparr>))) =
     Some ''Unexpected token < in JSON at position 0''"
  by (simp add: ok_def load_settle_def try_rest_def catch_clause_def
      finally_clause_def apply_all_def load_begin_def initial_state_def)

text \<open>
  Claim C5, amended.  Once the fetch has settled, the error cell is set exactly when
  (a) the fetch resolved with a non-success status, and then the text is
  \<^verbatim>\<open>Request failed: <status> <statusText>\<close>; or (b) the fetch rejected for a reason other
  than cancellation; or (c) the fetch resolved with a success status and the read of
  its body rejected for a reason other than cancellation, or the body was \<^verbatim>\<open>null\<close>.  In
  (b) and (c) the text is the failure's own message when it is an \<^verbatim>\<open>Error\<close>, and
  \<^verbatim>\<open>Failed to load\<close> otherwise.  The loading cell is false, and the failed state is
  displayed with that text whenever the text is not empty.
\<close>

theorem failed_exactly_when:
  "error (state_at (Settled out)) =
     (case out of
        Rejected e \<Rightarrow> if is_abort e then None else Some (error_text e)
      | Resolved r \<Rightarrow>
          if \<not> ok r
          then Some (''Request failed: '' @ show_nat (status r) @ '' '' @ statusText r)
          else (case body_json r of
                  Inl e \<Rightarrow> if is_abort e then None else Some (error_text e)
                | Inr d \<Rightarrow>
                    if d = JNull then Some (error_text (null_read_error ''message'')) else None)) \<and>
   loading (state_at (Settled out)) = False \<and>
   display_of (state_at (Settled out)) =
     (case error (state_at (Settled out)) of
        None \<Rightarrow> Loaded (message (state_at (Settled out))) (people (state_at (Settled out)))
      | Some e \<Rightarrow>
          if e \<noteq> [] then Failed e
          else Loaded (message (state_at (Settled out))) (people (state_at (Settled out))))"
proof -
  have e: "error (state_at (Settled out)) = settled_error out"
    and l: "loading (state_at (Settled out)) = False"
    using settled_state [of out] by (rule conjunct1, rule conjunct2)
  have "display_of (state_at (Settled out)) =
     (case error (state_at (Settled out)) of
        None \<Rightarrow> Loaded (message (state_at (Settled out))) (people (state_at (Settled out)))
      | Some e \<Rightarrow>
          if e \<noteq> [] then Failed e
          else Loaded (message (state_at (Settled out))) (people (state_at (Settled out))))"
    by (simp only: display_of_def l if_False)
  with e [unfolded settled_error_def] l show ?thesis
    by (intro conjI)
qed

theorem failed_exactly_when_witness:
  "display_of (state_at (Settled (Resolved
     \<lparr>status = 500, statusText = ''Internal Server Error'', body_json = Inr JNull\<rparr>))) =
     Failed ''Request failed: 500 Internal Server Error'' \<and>
   display_of (state_at (Settled (Rejected Thrown))) = Failed ''Failed to load''"
  using failed_exactly_when
    [of "Resolved \<lparr>status = 500, statusText = ''Internal Server Error'', body_json = Inr JNull\<rparr>"]
    failed_exactly_when [of "Rejected Thrown"]
  by (simp add: ok_def show_nat_500)

subsection \<open>One display state at a time\<close>

text \<open>
  Claim C6.  At every render of a mounted component exactly one of the loading
  indicator, the error message and the loaded message is among the rendered children,
  and it is the one of the display state.
\<close>

theorem exactly_one_display:
  "length (filter is_status_node (IndexPage_render (state_at p))) = 1 \<and>
   filter is_status_node (IndexPage_render (state_at p)) =
     (case display_of (state_at p) of
        Loading \<Rightarrow> [LoadingDiv]
      | Failed e \<Rightarrow> [ErrorDiv e]
      | Loaded m ps \<Rightarrow> [MessageDiv (Some m)])"
proof (cases "loading (state_at p)")
  case True
  with loading_no_error [of p] show ?thesis
    by (simp add: IndexPage_render_def display_of_def filter_person_items)
next
  case False
  then show ?thesis
    by (cases "error (state_at p)")
      (simp_all add: IndexPage_render_def display_of_def filter_person_items)
qed

theorem exactly_one_display_witness:
  "filter is_status_node (IndexPage_render (state_at Fetching)) = [LoadingDiv] \<and>
   filter is_status_node (IndexPage_render (state_at (Settled (Rejected Thrown)))) =
     [ErrorDiv ''Failed to load'']"
  using exactly_one_display [of Fetching] exactly_one_display [of "Settled (Rejected Thrown)"]
  by (simp add: display_of_def load_settle_Rejected apply_all_def load_begin_def initial_state_def)

subsection \<open>No data beside a failure\<close>

text \<open>
  Claim C9.  Whenever the error cell of \<^verbatim>\<open>IndexPage\<close> is not \<^verbatim>\<open>null\<close>, the message cell is
  still the empty string and the people cell is still the empty list.
\<close>

theorem failed_keeps_initial_data:
  assumes "error (state_at p) \<noteq> None"
  shows "message (state_at p) = JStr [] \<and> people (state_at p) = []"
proof (cases p)
  case Mounted
  then show ?thesis by (simp add: initial_state_def)
next
  case Fetching
  then show ?thesis by (simp add: apply_all_def load_begin_def initial_state_def)
next
  case (Settled out)
  from assms show ?thesis
    unfolding Settled
    by (cases out rule: settled_cases)
      (simp_all add: apply_all_def load_begin_def initial_state_def)
qed

theorem failed_keeps_initial_data_witness:
  "error (state_at (Settled (Rejected (ErrorObject ''Failed to fetch'')))) \<noteq> None \<and>
   message (state_at (Settled (Rejected (ErrorObject ''Failed to fetch'')))) = JStr [] \<and>
   people (state_at (Settled (Rejected (ErrorObject ''Failed to fetch'')))) = []"
proof -
  have h: "error (state_at (Settled (Rejected (ErrorObject ''Failed to fetch'')))) \<noteq> None"
    by (simp add: load_settle_Rejected apply_all_def load_begin_def initial_state_def)
  with failed_keeps_initial_data [OF h] show ?thesis
    by (intro conjI) simp_all
qed

subsection \<open>The legacy and the revised component\<close>

text \<open>
  Claim C10.  For every fetch that resolves with a success status and a JSON object
  whose \<^verbatim>\<open>message\<close> is a string and whose \<^verbatim>\<open>people\<close> is an array, the legacy component
  \<^verbatim>\<open>index\<close> and the revised component \<^verbatim>\<open>IndexPage\<close> end with the same message and the
  same people, and render the same children: the message, then one item per person,
  in order, keyed by its position.
\<close>

theorem index_agrees_with_IndexPage:
  assumes "ok r" and "body_json r = Inr (JObj kvs)"
    and "map_of kvs ''message'' = Some (JStr m)"
    and "map_of kvs ''people'' = Some (JArr ps)"
  shows "index_message (index_final (Resolved r)) = Some (message (state_at (Settled (Resolved r)))) \<and>
    index_people (index_final (Resolved r)) = Some (JArr (people (state_at (Settled (Resolved r))))) \<and>
    message (state_at (Settled (Resolved r))) = JStr m \<and>
    people (state_at (Settled (Resolved r))) = ps \<and>
    index_render (index_final (Resolved r)) = Inr (IndexPage_render (state_at (Settled (Resolved r)))) \<and>
    IndexPage_render (state_at (Settled (Resolved r))) =
      MessageDiv (Some (JStr m)) # map (\<lambda>i. PersonDiv i (ps ! i)) [0..<length ps]"
proof -
  have gm: "get_prop (JObj kvs) ''message'' = Inr (Some (JStr m))"
    and gp: "get_prop (JObj kvs) ''people'' = Inr (Some (JArr ps))"
    using assms(3,4) by simp_all
  have s: "state_at (Settled (Resolved r)) =
      \<lparr>message = JStr m, people = ps, error = None, loading = False\<rparr>"
    by (simp add: load_settle_data [OF assms(1,2) gm gp] apply_all_def load_begin_def
        initial_state_def)
  have i: "index_final (Resolved r) = \<lparr>index_message = Some (JStr m), index_people = Some (JArr ps)\<rparr>"
    using assms(2) gm gp by (simp add: index_final_def index_settle_def index_initial_def)
  show ?thesis
    unfolding s i
    by (simp add: index_render_def IndexPage_render_def person_items_nth)
qed

theorem index_agrees_with_IndexPage_witness:
  "index_render (index_final (Resolved
     \<lparr>status = 200, statusText = ''OK'', body_json = Inr greeting\<rparr>)) =
     Inr [MessageDiv (Some (JStr ''Hello World!'')),
          PersonDiv 0 (JStr ''Harry''), PersonDiv 1 (JStr ''Jack''), PersonDiv 2 (JStr ''Mary'')] \<and>
   IndexPage_render (state_at (Settled (Resolved
     \<lparr>status = 200, statusText = ''OK'', body_json = Inr greeting\<rparr>))) =
     [MessageDiv (Some (JStr ''Hello World!'')),
      PersonDiv 0 (JStr ''Harry''), PersonDiv 1 (JStr ''Jack''), PersonDiv 2 (JStr ''Mary'')]"
proof -
  let ?r = "\<lparr>status = 200, statusText = ''OK'', body_json = Inr greeting\<rparr>"
  let ?kvs = "[(''message'', JStr ''Hello World!''),
               (''people'', JArr [JStr ''Harry'', JStr ''Jack'', JStr ''Mary''])]"
  have h1: "ok ?r" by (simp add: ok_def)
  have h2: "body_json ?r = Inr (JObj ?kvs)" by (simp add: greeting_def)
  have h3: "map_of ?kvs ''message'' = Some (JStr ''Hello World!'')" by simp
  have h4: "map_of ?kvs ''people'' = Some (JArr [JStr ''Harry'', JStr ''Jack'', JStr ''Mary''])" by simp
  have u: "[0..<length [JStr ''Harry'', JStr ''Jack'', JStr ''Mary'']] = [0, 1, 2]"
    by (simp add: upt_rec)
  from index_agrees_with_IndexPage [OF h1 h2 h3 h4] show ?thesis
    by (simp add: u)
qed

end
